theory Spec2Isabelle
  imports Main
begin

section \<open>Data model of the chat page\<close>

text \<open>
  The embedded code is the \<^verbatim>\<open>Chat\<close> component (the page routed at \<^verbatim>\<open>/chat\<close>) and the
  \<^verbatim>\<open>sendMessage\<close> of the \<^verbatim>\<open>ChatSidebar\<close> component, whose \<^verbatim>\<open>fetchConversations\<close>,
  \<^verbatim>\<open>selectConversation\<close> and \<^verbatim>\<open>createNewConversation\<close> are the same text as the page's.

  A JavaScript string is a sequence of UTF-16 code units, here natural numbers. A JSON
  number is an \<open>int\<close>; \<^verbatim>\<open>null\<close> and \<^verbatim>\<open>undefined\<close> are \<open>None\<close>.
\<close>

type_synonym js_string = "nat list"

definition str :: "string \<Rightarrow> js_string" where
  "str s = map of_char s"

datatype role = User | Assistant | System

record message =
  msg_id :: int
  role :: role
  content :: js_string

text \<open>
  The field \<^verbatim>\<open>messages\<close> of a conversation is optional in what the server sends:
  \<^verbatim>\<open>selectConversation\<close> reads it as \<^verbatim>\<open>conversation.messages || []\<close>.
\<close>

record conversation =
  conv_id :: int
  title :: js_string
  conv_messages :: "message list option"

text \<open>The \<^verbatim>\<open>useState\<close> cells of the component.\<close>

record chat_state =
  conversations :: "conversation list"
  currentConversationId :: "int option"
  messages :: "message list"
  input :: js_string
  loading :: bool
  suggestions :: "js_string list"
  editingConversationId :: "int option"
  editTitle :: js_string

subsection \<open>JavaScript truthiness and \<^verbatim>\<open>trim\<close>\<close>

text \<open>\<^verbatim>\<open>!x\<close> for \<^verbatim>\<open>x : number | null\<close>: true for \<^verbatim>\<open>null\<close> and for \<^verbatim>\<open>0\<close>.\<close>

definition falsy_id :: "int option \<Rightarrow> bool" where
  "falsy_id x = (case x of None \<Rightarrow> True | Some n \<Rightarrow> n = 0)"

text \<open>\<^verbatim>\<open>!x\<close> for \<^verbatim>\<open>x : string | null | undefined\<close>: true for \<^verbatim>\<open>null\<close> and for the empty string.\<close>

definition falsy_str :: "js_string option \<Rightarrow> bool" where
  "falsy_str x = (case x of None \<Rightarrow> True | Some t \<Rightarrow> t = [])"

text \<open>
  The code units that \<^verbatim>\<open>String.prototype.trim\<close> strips: ECMAScript's WhiteSpace
  (TAB, VT, FF, SP, NBSP, ZWNBSP and the Unicode space separators) and LineTerminator
  (LF, CR, LS, PS).
\<close>

definition is_white_space :: "nat \<Rightarrow> bool" where
  "is_white_space c =
     (c = 9 \<or> c = 10 \<or> c = 11 \<or> c = 12 \<or> c = 13 \<or> c = 32 \<or> c = 160 \<or> c = 5760
      \<or> (8192 \<le> c \<and> c \<le> 8202) \<or> c = 8232 \<or> c = 8233 \<or> c = 8239 \<or> c = 8287
      \<or> c = 12288 \<or> c = 65279)"

definition trim :: "js_string \<Rightarrow> js_string" where
  "trim s = rev (dropWhile is_white_space (rev (dropWhile is_white_space s)))"

subsection \<open>The REST boundary\<close>

text \<open>
  Every request carries the header \<^verbatim>\<open>Authorization: `Token ${token}`\<close>, where \<^verbatim>\<open>token\<close> is
  \<^verbatim>\<open>localStorage.getItem("token")\<close>; a template literal prints \<^verbatim>\<open>null\<close> as the text
  \<^verbatim>\<open>null\<close>.
\<close>

definition authorization :: "js_string option \<Rightarrow> js_string" where
  "authorization token =
     str ''Token '' @ (case token of None \<Rightarrow> str ''null'' | Some t \<Rightarrow> t)"

text \<open>
  The requests the component issues; the first argument is the Authorization header.
  \<^item> \<open>GET_suggestions\<close>: GET \<^verbatim>\<open>/conversations/suggestions/\<close>
  \<^item> \<open>GET_conversations\<close>: GET \<^verbatim>\<open>/conversations/\<close>
  \<^item> \<open>DELETE_conversation a id\<close>: DELETE \<^verbatim>\<open>/conversations/{id}/\<close>
  \<^item> \<open>POST_conversations a t\<close>: POST \<^verbatim>\<open>/conversations/\<close> with body \<^verbatim>\<open>{title: t}\<close>
  \<^item> \<open>PATCH_conversation a id t\<close>: PATCH \<^verbatim>\<open>/conversations/{id}/\<close> with body \<^verbatim>\<open>{title: t}\<close>
  \<^item> \<open>POST_message a id c\<close>: POST \<^verbatim>\<open>/conversations/{id}/message/\<close> with body \<^verbatim>\<open>{content: c}\<close>
\<close>

datatype request =
    GET_suggestions js_string
  | GET_conversations js_string
  | DELETE_conversation js_string int
  | POST_conversations js_string js_string
  | PATCH_conversation js_string int js_string
  | POST_message js_string int js_string

text \<open>
  What an awaited \<^verbatim>\<open>fetch\<close> gives the \<^verbatim>\<open>try\<close> block:
  \<^item> \<open>Rejected\<close>: the \<^verbatim>\<open>fetch\<close> (or the \<^verbatim>\<open>response.json()\<close> after it) throws, and the
    \<^verbatim>\<open>catch\<close> logs the error;
  \<^item> \<open>NotOk\<close>: a response with \<^verbatim>\<open>response.ok\<close> false (a status outside 200..299);
  \<^item> \<open>Ok d\<close>: \<^verbatim>\<open>response.ok\<close> is true and \<open>d\<close> is the parsed body (\<open>()\<close> where the code
    does not read the body).
\<close>

datatype 'a response = Rejected | NotOk | Ok 'a

section \<open>The operations\<close>

text \<open>
  Each operation is run to completion on the state it was called in: it takes the stored
  token, the outcome of each request it may issue and the state, and returns the state
  after its last \<^verbatim>\<open>setState\<close> together with the requests it issued, in order.
\<close>

definition fetchSuggestions ::
  "js_string option \<Rightarrow> js_string list response \<Rightarrow> chat_state \<Rightarrow> chat_state \<times> request list" where
  "fetchSuggestions token response s =
     (if falsy_str token then (s, [])
      else
        ((case response of
            Ok data \<Rightarrow> s\<lparr>suggestions := data\<rparr>
          | NotOk \<Rightarrow> s
          | Rejected \<Rightarrow> s),
         [GET_suggestions (authorization token)]))"

definition selectConversation :: "conversation \<Rightarrow> chat_state \<Rightarrow> chat_state" where
  "selectConversation conversation s =
     s\<lparr>currentConversationId := Some (conv_id conversation),
       messages := (case conv_messages conversation of None \<Rightarrow> [] | Some ms \<Rightarrow> ms)\<rparr>"

definition fetchConversations ::
  "js_string option \<Rightarrow> conversation list response \<Rightarrow> chat_state \<Rightarrow> chat_state \<times> request list" where
  "fetchConversations token response s =
     (if falsy_str token then (s, [])
      else
        ((case response of
            Ok data \<Rightarrow>
              (case data of
                 [] \<Rightarrow> s\<lparr>conversations := data\<rparr>
               | d0 # _ \<Rightarrow>
                   if falsy_id (currentConversationId s)
                   then selectConversation d0 (s\<lparr>conversations := data\<rparr>)
                   else s\<lparr>conversations := data\<rparr>)
          | NotOk \<Rightarrow> s
          | Rejected \<Rightarrow> s),
         [GET_conversations (authorization token)]))"

text \<open>\<open>confirmed\<close> is the answer of \<^verbatim>\<open>window.confirm\<close>.\<close>

definition deleteConversation ::
  "bool \<Rightarrow> js_string option \<Rightarrow> unit response \<Rightarrow> int \<Rightarrow> chat_state \<Rightarrow> chat_state \<times> request list" where
  "deleteConversation confirmed token response i s =
     (if \<not> confirmed then (s, [])
      else
        ((case response of
            Ok _ \<Rightarrow>
              (let s1 = s\<lparr>conversations := filter (\<lambda>c. conv_id c \<noteq> i) (conversations s)\<rparr>
               in if currentConversationId s = Some i
                  then s1\<lparr>currentConversationId := None, messages := []\<rparr>
                  else s1)
          | NotOk \<Rightarrow> s
          | Rejected \<Rightarrow> s),
         [DELETE_conversation (authorization token) i]))"

definition createNewConversation ::
  "js_string option \<Rightarrow> conversation response \<Rightarrow> chat_state \<Rightarrow> chat_state \<times> request list" where
  "createNewConversation token response s =
     ((case response of
         Ok newConv \<Rightarrow> selectConversation newConv (s\<lparr>conversations := newConv # conversations s\<rparr>)
       | NotOk \<Rightarrow> s
       | Rejected \<Rightarrow> s),
      [POST_conversations (authorization token) (str ''New Chat'')])"

definition startEditing :: "conversation \<Rightarrow> chat_state \<Rightarrow> chat_state" where
  "startEditing conv s = s\<lparr>editingConversationId := Some (conv_id conv), editTitle := title conv\<rparr>"

definition saveTitle ::
  "js_string option \<Rightarrow> unit response \<Rightarrow> chat_state \<Rightarrow> chat_state \<times> request list" where
  "saveTitle token response s =
     (case editingConversationId s of
        None \<Rightarrow> (s, [])
      | Some i \<Rightarrow>
          if i = 0 then (s, [])
          else
            ((case response of
                Ok _ \<Rightarrow>
                  s\<lparr>conversations :=
                      map (\<lambda>c. if conv_id c = i then c\<lparr>title := editTitle s\<rparr> else c)
                        (conversations s),
                    editingConversationId := None,
                    editTitle := []\<rparr>
              | NotOk \<Rightarrow> s
              | Rejected \<Rightarrow> s),
             [PATCH_conversation (authorization token) i (editTitle s)]))"

text \<open>
  \<^verbatim>\<open>sendMessage(e, suggestionContent)\<close>. \<open>now\<close> is \<^verbatim>\<open>Date.now()\<close>. After a reply the code
  calls \<^verbatim>\<open>fetchConversations()\<close> and \<^verbatim>\<open>fetchSuggestions()\<close> without awaiting them and then
  runs \<^verbatim>\<open>setLoading(false)\<close>; the two refreshes write \<open>conversations\<close> and \<open>suggestions\<close>
  only (the captured \<^verbatim>\<open>currentConversationId\<close> passed the guard, so the reload selects
  nothing), so the state after all three is the same in any order of completion.
\<close>

definition contentToSend :: "js_string option \<Rightarrow> chat_state \<Rightarrow> js_string" where
  "contentToSend suggestionContent s =
     (if falsy_str suggestionContent then input s
      else (case suggestionContent of Some c \<Rightarrow> c | None \<Rightarrow> input s))"

definition sendMessage ::
  "js_string option \<Rightarrow> js_string option \<Rightarrow> int \<Rightarrow> message response \<Rightarrow>
   conversation list response \<Rightarrow> js_string list response \<Rightarrow> chat_state \<Rightarrow>
   chat_state \<times> request list" where
  "sendMessage token suggestionContent now response reload refresh s =
     (case currentConversationId s of
        None \<Rightarrow> (s, [])
      | Some cid \<Rightarrow>
          if trim (contentToSend suggestionContent s) = [] \<or> cid = 0 then (s, [])
          else
            (let userMessage =
                   \<lparr>msg_id = now, role = User, content = contentToSend suggestionContent s\<rparr>;
                 s1 = s\<lparr>messages := messages s @ [userMessage], input := [], loading := True\<rparr>;
                 req = POST_message (authorization token) cid (content userMessage)
             in case response of
                  Ok aiMessage \<Rightarrow>
                    (let s2 = s1\<lparr>messages := messages s1 @ [aiMessage]\<rparr>;
                         (s3, reqs3) = fetchConversations token reload s2;
                         (s4, reqs4) = fetchSuggestions token refresh s3
                     in (s4\<lparr>loading := False\<rparr>, req # reqs3 @ reqs4))
                | NotOk \<Rightarrow> (s1\<lparr>loading := False\<rparr>, [req])
                | Rejected \<Rightarrow> (s1\<lparr>loading := False\<rparr>, [req])))"

text \<open>
  \<^verbatim>\<open>sendMessage(e)\<close> of \<^verbatim>\<open>ChatSidebar\<close>: the content is the input draft, and there is no
  suggestion list to refresh.
\<close>

definition sidebar_sendMessage ::
  "js_string option \<Rightarrow> int \<Rightarrow> message response \<Rightarrow> conversation list response \<Rightarrow>
   chat_state \<Rightarrow> chat_state \<times> request list" where
  "sidebar_sendMessage token now response reload s =
     (case currentConversationId s of
        None \<Rightarrow> (s, [])
      | Some cid \<Rightarrow>
          if trim (input s) = [] \<or> cid = 0 then (s, [])
          else
            (let userMessage = \<lparr>msg_id = now, role = User, content = input s\<rparr>;
                 s1 = s\<lparr>messages := messages s @ [userMessage], input := [], loading := True\<rparr>;
                 req = POST_message (authorization token) cid (content userMessage)
             in case response of
                  Ok aiMessage \<Rightarrow>
                    (let s2 = s1\<lparr>messages := messages s1 @ [aiMessage]\<rparr>;
                         (s3, reqs3) = fetchConversations token reload s2
                     in (s3\<lparr>loading := False\<rparr>, req # reqs3))
                | NotOk \<Rightarrow> (s1\<lparr>loading := False\<rparr>, [req])
                | Rejected \<Rightarrow> (s1\<lparr>loading := False\<rparr>, [req])))"

section \<open>The operations across their await\<close>

text \<open>
  A handler that fetches runs in two steps. The part before \<^verbatim>\<open>await fetch\<close> runs in the
  render the handler closes over. The continuation runs when the response has arrived, in
  the state \<open>s\<close> the component has by then, and still reads \<^verbatim>\<open>conversations\<close>,
  \<^verbatim>\<open>currentConversationId\<close>, \<^verbatim>\<open>editingConversationId\<close> and \<^verbatim>\<open>editTitle\<close> of the render \<open>k\<close>
  it was called in: \<^verbatim>\<open>setConversations(conversations.filter(...))\<close>,
  \<^verbatim>\<open>setConversations([newConv, ...conversations])\<close> and \<^verbatim>\<open>setConversations(conversations.map(...))\<close>
  write back a list computed from the captured one. The definitions below are these
  continuations; the operations above are the case where nothing happened in between
  (\<open>k = s\<close>), as the lemmas \<open>fetchConversations_unfolded\<close> to \<open>sendMessage_unfolded\<close> state.
\<close>

definition fetchSuggestions_resume :: "js_string list response \<Rightarrow> chat_state \<Rightarrow> chat_state" where
  "fetchSuggestions_resume response s =
     (case response of
        Ok data \<Rightarrow> s\<lparr>suggestions := data\<rparr>
      | NotOk \<Rightarrow> s
      | Rejected \<Rightarrow> s)"

definition fetchConversations_resume ::
  "chat_state \<Rightarrow> conversation list response \<Rightarrow> chat_state \<Rightarrow> chat_state" where
  "fetchConversations_resume k response s =
     (case response of
        Ok data \<Rightarrow>
          (case data of
             [] \<Rightarrow> s\<lparr>conversations := data\<rparr>
           | d0 # _ \<Rightarrow>
               if falsy_id (currentConversationId k)
               then selectConversation d0 (s\<lparr>conversations := data\<rparr>)
               else s\<lparr>conversations := data\<rparr>)
      | NotOk \<Rightarrow> s
      | Rejected \<Rightarrow> s)"

definition deleteConversation_resume ::
  "chat_state \<Rightarrow> int \<Rightarrow> unit response \<Rightarrow> chat_state \<Rightarrow> chat_state" where
  "deleteConversation_resume k i response s =
     (case response of
        Ok _ \<Rightarrow>
          (let s1 = s\<lparr>conversations := filter (\<lambda>c. conv_id c \<noteq> i) (conversations k)\<rparr>
           in if currentConversationId k = Some i
              then s1\<lparr>currentConversationId := None, messages := []\<rparr>
              else s1)
      | NotOk \<Rightarrow> s
      | Rejected \<Rightarrow> s)"

definition createNewConversation_resume ::
  "chat_state \<Rightarrow> conversation response \<Rightarrow> chat_state \<Rightarrow> chat_state" where
  "createNewConversation_resume k response s =
     (case response of
        Ok newConv \<Rightarrow> selectConversation newConv (s\<lparr>conversations := newConv # conversations k\<rparr>)
      | NotOk \<Rightarrow> s
      | Rejected \<Rightarrow> s)"

definition saveTitle_resume :: "chat_state \<Rightarrow> unit response \<Rightarrow> chat_state \<Rightarrow> chat_state" where
  "saveTitle_resume k response s =
     (case editingConversationId k of
        None \<Rightarrow> s
      | Some i \<Rightarrow>
          if i = 0 then s
          else
            (case response of
               Ok _ \<Rightarrow>
                 s\<lparr>conversations :=
                     map (\<lambda>c. if conv_id c = i then c\<lparr>title := editTitle k\<rparr> else c)
                       (conversations k),
                   editingConversationId := None,
                   editTitle := []\<rparr>
             | NotOk \<Rightarrow> s
             | Rejected \<Rightarrow> s))"

text \<open>
  \<^verbatim>\<open>sendMessage\<close> up to its \<^verbatim>\<open>await fetch\<close>, and its continuation with \<^verbatim>\<open>finally\<close>. Both
  \<^verbatim>\<open>setMessages\<close> calls are functional updates, so they append to the stream of the state
  they run in. After an ok reply the continuation also calls \<^verbatim>\<open>fetchConversations()\<close> and
  \<^verbatim>\<open>fetchSuggestions()\<close> of the render the send was called in; their continuations are
  \<open>fetchConversations_resume\<close> with that render and \<open>fetchSuggestions_resume\<close>.
\<close>

definition sendMessage_call :: "js_string option \<Rightarrow> int \<Rightarrow> chat_state \<Rightarrow> chat_state" where
  "sendMessage_call suggestionContent now s =
     (if trim (contentToSend suggestionContent s) = [] \<or> falsy_id (currentConversationId s)
      then s
      else s\<lparr>messages := messages s @
                 [\<lparr>msg_id = now, role = User, content = contentToSend suggestionContent s\<rparr>],
             input := [], loading := True\<rparr>)"

definition sendMessage_resume :: "message response \<Rightarrow> chat_state \<Rightarrow> chat_state" where
  "sendMessage_resume response s =
     (case response of
        Ok aiMessage \<Rightarrow> s\<lparr>messages := messages s @ [aiMessage], loading := False\<rparr>
      | NotOk \<Rightarrow> s\<lparr>loading := False\<rparr>
      | Rejected \<Rightarrow> s\<lparr>loading := False\<rparr>)"

section \<open>The list invariant and sample states\<close>

text \<open>
  The invariant of the conversation list: the active id, when not \<^verbatim>\<open>null\<close>, is the id of
  an element of the list.
\<close>

definition active_listed :: "chat_state \<Rightarrow> bool" where
  "active_listed s =
     (case currentConversationId s of
        None \<Rightarrow> True
      | Some i \<Rightarrow> i \<in> set (map conv_id (conversations s)))"

text \<open>The state of a freshly mounted component, and sample data.\<close>

definition mounted :: chat_state where
  "mounted =
     \<lparr>conversations = [], currentConversationId = None, messages = [], input = [],
      loading = False, suggestions = [], editingConversationId = None, editTitle = []\<rparr>"

definition hello :: message where
  "hello = \<lparr>msg_id = 41, role = User, content = str ''Hi there''\<rparr>"

definition reply :: message where
  "reply = \<lparr>msg_id = 42, role = Assistant, content = str ''How can I help?''\<rparr>"

definition conv7 :: conversation where
  "conv7 = \<lparr>conv_id = 7, title = str ''Trip'', conv_messages = Some [hello]\<rparr>"

definition conv8 :: conversation where
  "conv8 = \<lparr>conv_id = 8, title = str ''New Chat'', conv_messages = None\<rparr>"

definition conv9 :: conversation where
  "conv9 = \<lparr>conv_id = 9, title = str ''Notes'', conv_messages = Some []\<rparr>"

text \<open>Conversation 7 is active, its one message is shown, and the draft is \<^verbatim>\<open>Hello\<close>.\<close>

definition chat7 :: chat_state where
  "chat7 =
     \<lparr>conversations = [conv7, conv9], currentConversationId = Some 7, messages = [hello],
      input = str ''Hello'', loading = False, suggestions = [str ''Summarise''],
      editingConversationId = None, editTitle = []\<rparr>"

text \<open>The same, with the title of conversation 7 being edited to \<^verbatim>\<open>Rome\<close>.\<close>

definition editing7 :: chat_state where
  "editing7 = chat7\<lparr>editingConversationId := Some 7, editTitle := str ''Rome''\<rparr>"

definition tok :: "js_string option" where
  "tok = Some (str ''s3cr3t'')"

definition conv10 :: conversation where
  "conv10 = \<lparr>conv_id = 10, title = str ''New Chat'', conv_messages = None\<rparr>"

text \<open>
  The state in which a response arrives when, after the call, the user has submitted the
  draft: the title of conversation 7 is being edited and a send is in flight.
\<close>

definition sending7 :: chat_state where
  "sending7 = sendMessage_call None 1000 editing7"

section \<open>Facts about the helpers\<close>

lemmas sample_defs = mounted_def hello_def reply_def conv7_def conv8_def conv9_def chat7_def
  editing7_def tok_def

lemmas js_defs = str_def trim_def is_white_space_def authorization_def falsy_str_def
  falsy_id_def contentToSend_def

lemma all_dropWhile_iff:
  "(\<forall>x \<in> set (dropWhile P xs). P x) \<longleftrightarrow> (\<forall>x \<in> set xs. P x)"
  by (induction xs) auto

text \<open>The content that the send guard rejects is the content made of white space only.\<close>

lemma trim_empty_iff: "trim s = [] \<longleftrightarrow> (\<forall>c \<in> set s. is_white_space c)"
  by (simp add: trim_def all_dropWhile_iff)



text \<open>
  Only the two refreshes test the token: without one they return at once.
\<close>

lemma missing_token_skips_refreshes:
  "falsy_str token \<Longrightarrow>
   fetchConversations token reload s = (s, []) \<and> fetchSuggestions token refresh s = (s, [])"
  by (simp add: fetchConversations_def fetchSuggestions_def)

text \<open>
  The guards of \<^verbatim>\<open>sendMessage\<close> and \<^verbatim>\<open>saveTitle\<close> are JavaScript truthiness: a request is
  issued exactly when the content is not blank and the id is neither \<^verbatim>\<open>null\<close> nor \<^verbatim>\<open>0\<close>.
\<close>

lemma sendMessage_issues:
  "snd (sendMessage token suggestionContent now response reload refresh s) \<noteq> [] \<longleftrightarrow>
   trim (contentToSend suggestionContent s) \<noteq> [] \<and> \<not> falsy_id (currentConversationId s)"
  by (cases response)
     (simp_all add: sendMessage_def falsy_id_def Let_def split_beta split: option.splits)


text \<open>
  The operations run to completion are their continuations run in the state of the call.
\<close>

lemma fetchSuggestions_unfolded:
  "fetchSuggestions token response s =
     (if falsy_str token then (s, [])
      else (fetchSuggestions_resume response s, [GET_suggestions (authorization token)]))"
  by (simp add: fetchSuggestions_def fetchSuggestions_resume_def)

lemma fetchConversations_unfolded:
  "fetchConversations token response s =
     (if falsy_str token then (s, [])
      else (fetchConversations_resume s response s, [GET_conversations (authorization token)]))"
  by (simp add: fetchConversations_def fetchConversations_resume_def)

lemma deleteConversation_unfolded:
  "deleteConversation True token response i s =
     (deleteConversation_resume s i response s, [DELETE_conversation (authorization token) i])"
  by (simp add: deleteConversation_def deleteConversation_resume_def)

lemma createNewConversation_unfolded:
  "createNewConversation token response s =
     (createNewConversation_resume s response s,
      [POST_conversations (authorization token) (str ''New Chat'')])"
  by (simp add: createNewConversation_def createNewConversation_resume_def)

lemma saveTitle_unfolded:
  "fst (saveTitle token response s) = saveTitle_resume s response s"
  by (simp add: saveTitle_def saveTitle_resume_def split: option.splits)

lemma sendMessage_unfolded:
  "fst (sendMessage token suggestionContent now response reload refresh s) =
     (if trim (contentToSend suggestionContent s) = [] \<or> falsy_id (currentConversationId s)
      then s
      else case response of
             Ok aiMessage \<Rightarrow>
               fst (fetchSuggestions token refresh
                 (if falsy_str token then sendMessage_resume response (sendMessage_call suggestionContent now s)
                  else fetchConversations_resume s reload
                      (sendMessage_resume response (sendMessage_call suggestionContent now s))))
           | NotOk \<Rightarrow> sendMessage_resume response (sendMessage_call suggestionContent now s)
           | Rejected \<Rightarrow> sendMessage_resume response (sendMessage_call suggestionContent now s))"
  by (cases response)
     (auto simp: sendMessage_def sendMessage_call_def sendMessage_resume_def Let_def split_beta
        fetchConversations_def fetchConversations_resume_def fetchSuggestions_def
        selectConversation_def falsy_id_def
        split: option.splits response.splits list.splits)

section \<open>Sending a message\<close>



text \<open>
  The \<^verbatim>\<open>sendMessage\<close> of \<^verbatim>\<open>ChatSidebar\<close> builds the same stream and triggers the same
  reload; that component has no suggestion list, and leaves the field untouched.
\<close>

lemma sidebar_sendMessage_success:
  assumes "currentConversationId s = Some i" and "i \<noteq> 0" and "trim (input s) \<noteq> []"
  shows "messages (fst (sidebar_sendMessage token now (Ok aiMessage) reload s)) =
           messages s @ [\<lparr>msg_id = now, role = User, content = input s\<rparr>, aiMessage] \<and>
         conversations (fst (sidebar_sendMessage token now (Ok aiMessage) reload s)) =
           conversations (fst (fetchConversations token reload s)) \<and>
         suggestions (fst (sidebar_sendMessage token now (Ok aiMessage) reload s)) =
           suggestions s \<and>
         snd (sidebar_sendMessage token now (Ok aiMessage) reload s) =
           POST_message (authorization token) i (input s)
             # snd (fetchConversations token reload s)"
  using assms
  by (simp add: sidebar_sendMessage_def Let_def split_beta fetchConversations_def falsy_id_def
      split: response.splits list.splits)

text \<open>
  C5. A send of empty or white-space-only content, and a send with no active conversation
  (the id is \<^verbatim>\<open>null\<close>; the guard also stops at the id 0), returns the state it was given
  and issues no request, whatever the server would have answered.
\<close>

theorem sendMessage_blank_or_inactive:
  assumes "trim (contentToSend suggestionContent s) = [] \<or> falsy_id (currentConversationId s)"
  shows "sendMessage token suggestionContent now response reload refresh s = (s, [])"
  using assms by (auto simp: sendMessage_def falsy_id_def split: option.splits)

theorem sendMessage_blank_or_inactive_witness:
  "(trim (contentToSend None (chat7\<lparr>input := str ''   ''\<rparr>)) = [] \<or>
    falsy_id (currentConversationId (chat7\<lparr>input := str ''   ''\<rparr>))) \<and>
   sendMessage tok None 1000 (Ok reply) (Ok []) (Ok []) (chat7\<lparr>input := str ''   ''\<rparr>) =
     (chat7\<lparr>input := str ''   ''\<rparr>, []) \<and>
   (trim (contentToSend None (chat7\<lparr>input := []\<rparr>)) = [] \<or>
    falsy_id (currentConversationId (chat7\<lparr>input := []\<rparr>))) \<and>
   sendMessage tok None 1000 (Ok reply) (Ok []) (Ok []) (chat7\<lparr>input := []\<rparr>) =
     (chat7\<lparr>input := []\<rparr>, []) \<and>
   (trim (contentToSend (Some (str ''Summarise'')) mounted) = [] \<or>
    falsy_id (currentConversationId mounted)) \<and>
   sendMessage tok (Some (str ''Summarise'')) 1000 (Ok reply) (Ok []) (Ok []) mounted =
     (mounted, [])"
proof -
  have blank: "trim (contentToSend None (chat7\<lparr>input := str ''   ''\<rparr>)) = [] \<or>
    falsy_id (currentConversationId (chat7\<lparr>input := str ''   ''\<rparr>))"
    by (simp add: js_defs chat7_def)
  have empty: "trim (contentToSend None (chat7\<lparr>input := []\<rparr>)) = [] \<or>
    falsy_id (currentConversationId (chat7\<lparr>input := []\<rparr>))"
    by (simp add: js_defs chat7_def)
  have inactive: "trim (contentToSend (Some (str ''Summarise'')) mounted) = [] \<or>
    falsy_id (currentConversationId mounted)"
    by (simp add: mounted_def falsy_id_def)
  show ?thesis
    using sendMessage_blank_or_inactive [OF blank] sendMessage_blank_or_inactive [OF empty]
      sendMessage_blank_or_inactive [OF inactive] blank empty inactive
    by simp
qed

lemma sidebar_sendMessage_blank_or_inactive:
  assumes "trim (input s) = [] \<or> falsy_id (currentConversationId s)"
  shows "sidebar_sendMessage token now response reload s = (s, [])"
  using assms by (auto simp: sidebar_sendMessage_def falsy_id_def split: option.splits)

text \<open>
  C6. A send whose request is issued and fails (the fetch throws, or the response is not
  ok) leaves the prior stream followed by the optimistic user message and nothing else: no
  rollback and no assistant message. The pending flag is off, the draft is cleared, every
  other field is as before, and the POST is the only request.
\<close>

theorem sendMessage_failure:
  assumes "response = Rejected \<or> response = NotOk"
    and "currentConversationId s = Some i"
    and "sendMessage token suggestionContent now response reload refresh s = (s', reqs)"
    and "reqs \<noteq> []"
  shows "s' = s\<lparr>messages := messages s @
                   [\<lparr>msg_id = now, role = User, content = contentToSend suggestionContent s\<rparr>],
                input := [], loading := False\<rparr> \<and>
         reqs = [POST_message (authorization token) i (contentToSend suggestionContent s)]"
proof -
  have "snd (sendMessage token suggestionContent now response reload refresh s) \<noteq> []"
    using assms(3,4) by simp
  then have guard: "trim (contentToSend suggestionContent s) \<noteq> []" "i \<noteq> 0"
    using assms(2) by (simp_all add: sendMessage_issues falsy_id_def)
  show ?thesis
    using assms(1,2,3) guard by (auto simp: sendMessage_def Let_def)
qed

theorem sendMessage_failure_witness:
  "(NotOk = Rejected \<or> NotOk = (NotOk :: message response)) \<and>
   currentConversationId chat7 = Some 7 \<and>
   snd (sendMessage tok None 1000 NotOk (Ok [conv9]) (Ok []) chat7) \<noteq> [] \<and>
   fst (sendMessage tok None 1000 NotOk (Ok [conv9]) (Ok []) chat7) =
     chat7\<lparr>messages := messages chat7 @
                [\<lparr>msg_id = 1000, role = User, content = contentToSend None chat7\<rparr>],
           input := [], loading := False\<rparr> \<and>
   snd (sendMessage tok None 1000 NotOk (Ok [conv9]) (Ok []) chat7) =
     [POST_message (authorization tok) 7 (contentToSend None chat7)] \<and>
   messages (fst (sendMessage tok None 1000 NotOk (Ok [conv9]) (Ok []) chat7)) =
     [hello, \<lparr>msg_id = 1000, role = User, content = str ''Hello''\<rparr>]"
proof -
  have failed: "NotOk = Rejected \<or> NotOk = (NotOk :: message response)"
    by simp
  have active: "currentConversationId chat7 = Some 7"
    by (simp add: chat7_def)
  have run: "sendMessage tok None 1000 NotOk (Ok [conv9]) (Ok []) chat7 =
     (fst (sendMessage tok None 1000 NotOk (Ok [conv9]) (Ok []) chat7),
      snd (sendMessage tok None 1000 NotOk (Ok [conv9]) (Ok []) chat7))"
    by simp
  have issued: "snd (sendMessage tok None 1000 NotOk (Ok [conv9]) (Ok []) chat7) \<noteq> []"
    by (simp add: sendMessage_issues js_defs chat7_def)
  have shown: "messages chat7 @
      [\<lparr>msg_id = 1000, role = User, content = contentToSend None chat7\<rparr>] =
      [hello, \<lparr>msg_id = 1000, role = User, content = str ''Hello''\<rparr>]"
    by (simp add: chat7_def contentToSend_def falsy_str_def)
  show ?thesis
    using sendMessage_failure [OF failed active run issued] active issued shown
    by simp
qed

section \<open>Selecting a conversation\<close>

text \<open>
  C10. Selecting is a total function of the record and the state, with no failing branch:
  it sets the active id to the record's id and the stream to the record's messages, or to
  the empty list when the record has no messages field, as the record of a create response
  may. So a select of x followed by a select of y shows exactly the messages of y, and a
  successful create, which selects the new record, shows what that record carries.
\<close>

theorem selectConversation_total:
  "currentConversationId (selectConversation c s) = Some (conv_id c) \<and>
   messages (selectConversation c s) =
     (case conv_messages c of None \<Rightarrow> [] | Some ms \<Rightarrow> ms) \<and>
   (conv_messages c = None \<longrightarrow> messages (selectConversation c s) = []) \<and>
   messages (selectConversation y (selectConversation x s)) =
     (case conv_messages y of None \<Rightarrow> [] | Some ms \<Rightarrow> ms) \<and>
   currentConversationId (selectConversation y (selectConversation x s)) = Some (conv_id y) \<and>
   selectConversation y (selectConversation x s) = selectConversation y s \<and>
   fst (createNewConversation token (Ok c) s) =
     selectConversation c (s\<lparr>conversations := c # conversations s\<rparr>)"
  by (simp add: selectConversation_def createNewConversation_def)

theorem selectConversation_total_witness:
  "conv_messages conv8 = None \<and>
   currentConversationId (selectConversation conv8 chat7) = Some 8 \<and>
   messages (selectConversation conv8 chat7) = [] \<and>
   messages (selectConversation conv7 (selectConversation conv8 chat7)) = [hello]"
proof -
  note select8 = selectConversation_total [of conv8 chat7 conv7 conv8 tok]
  have absent: "conv_messages conv8 = None"
    by (simp add: conv8_def)
  have known: "(case conv_messages conv7 of None \<Rightarrow> [] | Some ms \<Rightarrow> ms) = [hello]"
    by (simp add: conv7_def)
  have ident: "Some (conv_id conv8) = Some 8"
    by (simp add: conv8_def)
  have "currentConversationId (selectConversation conv8 chat7) = Some (conv_id conv8)"
    using select8 by blast
  then have active: "currentConversationId (selectConversation conv8 chat7) = Some 8"
    by (simp only: ident)
  have empty: "messages (selectConversation conv8 chat7) = []"
    using select8 absent by blast
  have "messages (selectConversation conv7 (selectConversation conv8 chat7)) =
      (case conv_messages conv7 of None \<Rightarrow> [] | Some ms \<Rightarrow> ms)"
    using select8 by blast
  then have second: "messages (selectConversation conv7 (selectConversation conv8 chat7)) = [hello]"
    by (simp only: known)
  show ?thesis
    using absent active empty second by blast
qed

section \<open>Loading the conversation list\<close>

text \<open>
  C4. With a token stored, a load answered ok replaces the whole list by the list the
  server returned, in the server's order, whatever the list was before. If no conversation
  was active (the id is \<^verbatim>\<open>null\<close>; the code tests truthiness, so 0 counts as none too) and
  the fetched list is not empty, its first element becomes active and the stream shows
  that element's messages; otherwise the active id and the stream are kept. When the fetch
  throws or the response is not ok, the state is unchanged. A load with a token issues
  exactly the one GET.
\<close>

theorem fetchConversations_replaces:
  "(\<not> falsy_str token \<longrightarrow>
      conversations (fst (fetchConversations token (Ok data) s)) = data \<and>
      snd (fetchConversations token response s) = [GET_conversations (authorization token)]) \<and>
   (\<not> falsy_str token \<and> falsy_id (currentConversationId s) \<and> data = d0 # rest \<longrightarrow>
      currentConversationId (fst (fetchConversations token (Ok data) s)) = Some (conv_id d0) \<and>
      messages (fst (fetchConversations token (Ok data) s)) =
        (case conv_messages d0 of None \<Rightarrow> [] | Some ms \<Rightarrow> ms)) \<and>
   (\<not> falsy_id (currentConversationId s) \<or> data = [] \<longrightarrow>
      currentConversationId (fst (fetchConversations token (Ok data) s)) =
        currentConversationId s \<and>
      messages (fst (fetchConversations token (Ok data) s)) = messages s) \<and>
   fst (fetchConversations token NotOk s) = s \<and>
   fst (fetchConversations token Rejected s) = s"
  by (auto simp: fetchConversations_def selectConversation_def split: list.splits)

theorem fetchConversations_replaces_witness:
  "\<not> falsy_str tok \<and> falsy_id (currentConversationId mounted) \<and>
   conversations (fst (fetchConversations tok (Ok [conv7, conv9]) mounted)) = [conv7, conv9] \<and>
   currentConversationId (fst (fetchConversations tok (Ok [conv7, conv9]) mounted)) = Some 7 \<and>
   messages (fst (fetchConversations tok (Ok [conv7, conv9]) mounted)) = [hello] \<and>
   \<not> falsy_id (currentConversationId chat7) \<and>
   conversations (fst (fetchConversations tok (Ok [conv8]) chat7)) = [conv8] \<and>
   currentConversationId (fst (fetchConversations tok (Ok [conv8]) chat7)) = Some 7 \<and>
   messages (fst (fetchConversations tok (Ok [conv8]) chat7)) = messages chat7 \<and>
   fst (fetchConversations tok NotOk chat7) = chat7 \<and>
   fst (fetchConversations tok Rejected chat7) = chat7"
proof -
  have token: "\<not> falsy_str tok"
    by (simp add: falsy_str_def tok_def str_def)
  have none: "falsy_id (currentConversationId mounted)"
    by (simp add: falsy_id_def mounted_def)
  have some: "\<not> falsy_id (currentConversationId chat7)" "currentConversationId chat7 = Some 7"
    by (simp_all add: falsy_id_def chat7_def)
  have first: "conv_id conv7 = 7" "conv_messages conv7 = Some [hello]"
    by (simp_all add: conv7_def)
  show ?thesis
    using fetchConversations_replaces [of tok "[conv7, conv9]" mounted NotOk conv7 "[conv9]"]
      fetchConversations_replaces [of tok "[conv8]" chat7 NotOk conv8 "[]"]
      token none some first
    by simp
qed

section \<open>Creating conversations\<close>

text \<open>
  The continuation of a create prepends the new conversation to the list of the render
  the create was called in. Creates that each complete before the next is called build the
  list newest first; of two creates called in the same render (the button is never
  disabled), the second to complete writes back the captured list with its own
  conversation only.
\<close>

lemma createNewConversation_resume_overlapping:
  "conversations (createNewConversation_resume k (Ok c2) (createNewConversation_resume k (Ok c1) s))
     = c2 # conversations k"
  by (simp add: createNewConversation_resume_def selectConversation_def)

lemma createNewConversation_resume_serial:
  "conversations
     (createNewConversation_resume (createNewConversation_resume s (Ok c1) s) (Ok c2)
        (createNewConversation_resume s (Ok c1) s))
     = c2 # c1 # conversations s"
  by (simp add: createNewConversation_resume_def selectConversation_def)

text \<open>
  C7 at a concrete input. In the state \<open>chat7\<close> the user clicks the new-chat button twice
  before the first response arrives; the server creates conversation 8 and then
  conversation 10, and both responses are ok. After the first continuation the list is
  8, 7, 9; after the second it is 10, 7, 9: conversation 8 is not in the list, where
  newest first would be 10, 8, 7, 9.
\<close>

theorem createNewConversation_overlapping_drops:
  "conversations (createNewConversation_resume chat7 (Ok conv8) chat7) = [conv8, conv7, conv9] \<and>
   conversations
     (createNewConversation_resume chat7 (Ok conv10)
        (createNewConversation_resume chat7 (Ok conv8) chat7)) = [conv10, conv7, conv9] \<and>
   currentConversationId
     (createNewConversation_resume chat7 (Ok conv10)
        (createNewConversation_resume chat7 (Ok conv8) chat7)) = Some 10"
  by (simp add: createNewConversation_resume_def selectConversation_def chat7_def conv10_def)

section \<open>Deleting a conversation\<close>

text \<open>
  C8. A delete issues a request only when the confirmation was accepted; declined, it
  returns the state as given. Accepted and answered ok, it removes the entries with that
  id from the list and keeps the others in order; if the id was the active one, the active
  id becomes \<^verbatim>\<open>null\<close> and the stream is emptied, otherwise both are kept. Accepted and
  failed (the fetch throws or the response is not ok), the state, and so the entry, is
  unchanged.
\<close>

theorem deleteConversation_guarded:
  "(\<not> confirmed \<longrightarrow> deleteConversation confirmed token response i s = (s, [])) \<and>
   (snd (deleteConversation confirmed token response i s) \<noteq> [] \<longrightarrow> confirmed) \<and>
   (confirmed \<longrightarrow>
      snd (deleteConversation confirmed token response i s)
        = [DELETE_conversation (authorization token) i]) \<and>
   (confirmed \<and> response = Ok () \<longrightarrow>
      conversations (fst (deleteConversation confirmed token response i s))
        = filter (\<lambda>c. conv_id c \<noteq> i) (conversations s) \<and>
      i \<notin> conv_id ` set (conversations (fst (deleteConversation confirmed token response i s))) \<and>
      (currentConversationId s = Some i \<longrightarrow>
         currentConversationId (fst (deleteConversation confirmed token response i s)) = None \<and>
         messages (fst (deleteConversation confirmed token response i s)) = []) \<and>
      (currentConversationId s \<noteq> Some i \<longrightarrow>
         currentConversationId (fst (deleteConversation confirmed token response i s))
           = currentConversationId s \<and>
         messages (fst (deleteConversation confirmed token response i s)) = messages s)) \<and>
   (confirmed \<and> response \<noteq> Ok () \<longrightarrow>
      fst (deleteConversation confirmed token response i s) = s)"
  by (cases response) (auto simp: deleteConversation_def Let_def)

theorem deleteConversation_guarded_witness:
  "currentConversationId chat7 = Some 7 \<and>
   deleteConversation False tok (Ok ()) 7 chat7 = (chat7, []) \<and>
   snd (deleteConversation True tok (Ok ()) 7 chat7) = [DELETE_conversation (authorization tok) 7] \<and>
   conversations (fst (deleteConversation True tok (Ok ()) 7 chat7)) = [conv9] \<and>
   currentConversationId (fst (deleteConversation True tok (Ok ()) 7 chat7)) = None \<and>
   messages (fst (deleteConversation True tok (Ok ()) 7 chat7)) = [] \<and>
   fst (deleteConversation True tok NotOk 7 chat7) = chat7"
proof -
  note declined = deleteConversation_guarded [of False tok "Ok ()" 7 chat7]
  note accepted = deleteConversation_guarded [of True tok "Ok ()" 7 chat7]
  note failed = deleteConversation_guarded [of True tok NotOk 7 chat7]
  have active: "currentConversationId chat7 = Some 7"
    by (simp add: chat7_def)
  have others: "filter (\<lambda>c. conv_id c \<noteq> 7) (conversations chat7) = [conv9]"
    by (simp add: chat7_def conv7_def conv9_def)
  have not_ok: "NotOk \<noteq> Ok ()"
    by simp
  have d: "deleteConversation False tok (Ok ()) 7 chat7 = (chat7, [])"
    using declined by blast
  have r: "snd (deleteConversation True tok (Ok ()) 7 chat7) =
      [DELETE_conversation (authorization tok) 7]"
    using accepted by blast
  have "conversations (fst (deleteConversation True tok (Ok ()) 7 chat7)) =
      filter (\<lambda>c. conv_id c \<noteq> 7) (conversations chat7)"
    using accepted by blast
  then have l: "conversations (fst (deleteConversation True tok (Ok ()) 7 chat7)) = [conv9]"
    by (simp only: others)
  have c: "currentConversationId (fst (deleteConversation True tok (Ok ()) 7 chat7)) = None"
    using accepted active by blast
  have m: "messages (fst (deleteConversation True tok (Ok ()) 7 chat7)) = []"
    using accepted active by blast
  have f: "fst (deleteConversation True tok NotOk 7 chat7) = chat7"
    using failed not_ok by blast
  show ?thesis
    using active d r l c m f by blast
qed

section \<open>Renaming a conversation\<close>



section \<open>The active id and the list\<close>

lemma active_listed_cong:
  assumes "currentConversationId s' = currentConversationId s"
    and "map conv_id (conversations s') = map conv_id (conversations s)"
  shows "active_listed s' = active_listed s"
  by (simp only: active_listed_def assms)

lemma selectConversation_active_listed:
  "c \<in> set (conversations s) \<Longrightarrow> active_listed (selectConversation c s)"
  by (simp add: selectConversation_def active_listed_def)

lemma createNewConversation_resume_active_listed:
  "active_listed s \<Longrightarrow> active_listed (createNewConversation_resume k r s)"
  by (cases r)
     (simp_all add: createNewConversation_resume_def selectConversation_def active_listed_def)

lemma map_conv_id_retitle:
  "map conv_id (map (\<lambda>c. if conv_id c = i then c\<lparr>title := t\<rparr> else c) cs) = map conv_id cs"
  by (induction cs) simp_all

lemma saveTitle_resume_active_listed:
  assumes "active_listed s" and "active_listed k"
    and "currentConversationId s = currentConversationId k"
  shows "active_listed (saveTitle_resume k r s)"
proof (cases "\<exists>i. editingConversationId k = Some i \<and> i \<noteq> 0 \<and> r = Ok ()")
  case True
  then obtain i where i: "editingConversationId k = Some i" "i \<noteq> 0" "r = Ok ()"
    by blast
  have "active_listed (saveTitle_resume k r s) = active_listed k"
    by (rule active_listed_cong)
       (simp_all add: saveTitle_resume_def i assms(3) map_conv_id_retitle)
  then show ?thesis using assms(2) by simp
next
  case False
  then have "saveTitle_resume k r s = s"
    by (cases r) (auto simp: saveTitle_resume_def split: option.splits)
  then show ?thesis using assms(1) by simp
qed

lemma deleteConversation_resume_active_listed:
  assumes "active_listed s" and "active_listed k"
    and "currentConversationId s = currentConversationId k"
  shows "active_listed (deleteConversation_resume k i r s)"
proof (cases "r = Ok ()")
  case True
  show ?thesis
  proof (cases "currentConversationId k = Some i")
    case True
    with \<open>r = Ok ()\<close> show ?thesis
      by (simp add: deleteConversation_resume_def active_listed_def)
  next
    case False
    with \<open>r = Ok ()\<close> assms(2,3) show ?thesis
      by (auto simp: deleteConversation_resume_def active_listed_def split: option.splits)
  qed
next
  case False
  then have "deleteConversation_resume k i r s = s"
    by (cases r) (auto simp: deleteConversation_resume_def)
  then show ?thesis using assms(1) by simp
qed

lemma fetchConversations_resume_active_listed:
  assumes "(\<forall>j. currentConversationId s = Some j \<longrightarrow> j \<in> set (map conv_id data)) \<or>
           (falsy_id (currentConversationId k) \<and> data \<noteq> [])"
  shows "active_listed (fetchConversations_resume k (Ok data) s)"
proof (cases "falsy_id (currentConversationId k) \<and> data \<noteq> []")
  case True
  then obtain d0 rest where "data = d0 # rest"
    by (cases data) simp_all
  then show ?thesis
    using True
    by (simp add: fetchConversations_resume_def selectConversation_def active_listed_def)
next
  case False
  then have "fetchConversations_resume k (Ok data) s = s\<lparr>conversations := data\<rparr>"
    by (simp add: fetchConversations_resume_def split: list.splits)
  then show ?thesis
    using assms False by (simp add: active_listed_def split: option.splits)
qed

lemma fetchConversations_resume_failed:
  "fetchConversations_resume k NotOk s = s" "fetchConversations_resume k Rejected s = s"
  by (simp_all add: fetchConversations_resume_def)

lemma fetchSuggestions_resume_active_listed:
  "active_listed (fetchSuggestions_resume r s) = active_listed s"
  by (rule active_listed_cong) (simp_all add: fetchSuggestions_resume_def split: response.splits)

lemma sendMessage_call_active_listed:
  "active_listed (sendMessage_call suggestionContent now s) = active_listed s"
  by (rule active_listed_cong) (simp_all add: sendMessage_call_def)

lemma sendMessage_resume_active_listed:
  "active_listed (sendMessage_resume r s) = active_listed s"
  by (rule active_listed_cong) (simp_all add: sendMessage_resume_def split: response.splits)

text \<open>
  C2, as the code has it. The invariant (the active id, when not \<^verbatim>\<open>null\<close>, is the id of
  an entry of the list) holds after each step taken in a state \<open>s\<close> where it holds:
  \<^item> selecting an entry of the list, and the continuation of a create, in any state;
  \<^item> the continuation of a rename or of a delete called in a render \<open>k\<close>, when the invariant
    held in \<open>k\<close> and the active id is still the one of \<open>k\<close> (the continuation writes back
    the list of \<open>k\<close>);
  \<^item> a delete of the conversation that was active at the call clears the active id;
  \<^item> the continuation of a load (also the reload of a send) that adopts the server's
    list, when that list has an entry with the id active at that moment, or when the load
    selects the first entry; a load that fails adopts nothing;
  \<^item> the refresh of the suggestions and both steps of a send, which touch neither the
    list nor the active id.
\<close>

theorem active_listed_preserved:
  assumes "active_listed s"
  shows "(\<forall>c \<in> set (conversations s). active_listed (selectConversation c s)) \<and>
         active_listed (createNewConversation_resume k created_response s) \<and>
         (active_listed k \<and> currentConversationId s = currentConversationId k \<longrightarrow>
            active_listed (saveTitle_resume k renamed s) \<and>
            active_listed (deleteConversation_resume k i deleted s)) \<and>
         (currentConversationId k = Some i \<longrightarrow>
            currentConversationId (deleteConversation_resume k i (Ok ()) s) = None) \<and>
         ((\<forall>j. currentConversationId s = Some j \<longrightarrow> j \<in> set (map conv_id data)) \<or>
          (falsy_id (currentConversationId k) \<and> data \<noteq> []) \<longrightarrow>
            active_listed (fetchConversations_resume k (Ok data) s)) \<and>
         active_listed (fetchConversations_resume k NotOk s) \<and>
         active_listed (fetchConversations_resume k Rejected s) \<and>
         active_listed (fetchSuggestions_resume refresh s) \<and>
         active_listed (sendMessage_call suggestionContent now s) \<and>
         active_listed (sendMessage_resume response s)"
proof -
  have "currentConversationId k = Some i \<longrightarrow>
      currentConversationId (deleteConversation_resume k i (Ok ()) s) = None"
    by (simp add: deleteConversation_resume_def)
  then show ?thesis
    using assms
    by (simp add: selectConversation_active_listed createNewConversation_resume_active_listed
      saveTitle_resume_active_listed deleteConversation_resume_active_listed
      fetchConversations_resume_active_listed fetchConversations_resume_failed
      fetchSuggestions_resume_active_listed sendMessage_call_active_listed
      sendMessage_resume_active_listed)
qed

theorem active_listed_preserved_witness:
  "active_listed sending7 \<and> active_listed editing7 \<and>
   currentConversationId sending7 = currentConversationId editing7 \<and>
   conv9 \<in> set (conversations sending7) \<and>
   currentConversationId editing7 = Some 7 \<and>
   7 \<in> set (map conv_id [conv7]) \<and>
   active_listed (selectConversation conv9 sending7) \<and>
   active_listed (createNewConversation_resume editing7 (Ok conv8) sending7) \<and>
   active_listed (saveTitle_resume editing7 (Ok ()) sending7) \<and>
   active_listed (deleteConversation_resume editing7 9 (Ok ()) sending7) \<and>
   currentConversationId (deleteConversation_resume editing7 7 (Ok ()) sending7) = None \<and>
   active_listed (fetchConversations_resume editing7 (Ok [conv7]) sending7) \<and>
   active_listed (sendMessage_resume (Ok reply) sending7)"
proof -
  have now: "active_listed sending7"
    by (simp add: sending7_def sendMessage_call_def active_listed_def editing7_def chat7_def
        conv7_def)
  have called: "active_listed editing7"
    by (simp add: active_listed_def editing7_def chat7_def conv7_def)
  have same: "currentConversationId sending7 = currentConversationId editing7"
    by (simp add: sending7_def sendMessage_call_def)
  have listed: "conv9 \<in> set (conversations sending7)"
    by (simp add: sending7_def sendMessage_call_def editing7_def chat7_def)
  have active: "currentConversationId editing7 = Some 7"
    by (simp add: editing7_def chat7_def)
  have returned: "7 \<in> set (map conv_id [conv7])"
    by (simp add: conv7_def)
  have kept: "\<forall>j. currentConversationId sending7 = Some j \<longrightarrow> j \<in> set (map conv_id [conv7])"
    using returned same active by simp
  note other = active_listed_preserved
    [where s = sending7 and k = editing7 and created_response = "Ok conv8"
       and renamed = "Ok ()" and i = 9 and deleted = "Ok ()" and data = "[conv7]"
       and refresh = "Ok []" and suggestionContent = None and now = 1000
       and response = "Ok reply", OF now]
  note own = active_listed_preserved
    [where s = sending7 and k = editing7 and created_response = "Ok conv8"
       and renamed = "Ok ()" and i = 7 and deleted = "Ok ()" and data = "[conv7]"
       and refresh = "Ok []" and suggestionContent = None and now = 1000
       and response = "Ok reply", OF now]
  have s: "active_listed (selectConversation conv9 sending7)"
    using other listed by blast
  have c: "active_listed (createNewConversation_resume editing7 (Ok conv8) sending7)"
    using other by blast
  have r: "active_listed (saveTitle_resume editing7 (Ok ()) sending7)"
    using other called same by blast
  have d: "active_listed (deleteConversation_resume editing7 9 (Ok ()) sending7)"
    using other called same by blast
  have n: "currentConversationId (deleteConversation_resume editing7 7 (Ok ()) sending7) = None"
    using own active by blast
  have l: "active_listed (fetchConversations_resume editing7 (Ok [conv7]) sending7)"
    using other kept by blast
  have m: "active_listed (sendMessage_resume (Ok reply) sending7)"
    using other by blast
  show ?thesis
    using now called same listed active returned s c r d n l m by blast
qed

text \<open>
  What the second item leaves out: the user calls delete on conversation 9, clicks its row
  before the response arrives, and the DELETE is answered ok. The continuation writes back
  the captured list without 9 and, 9 not having been active at the call, leaves it active.
\<close>

lemma deleteConversation_resume_after_select:
  "active_listed chat7 \<and>
   active_listed (selectConversation conv9 chat7) \<and>
   \<not> active_listed (deleteConversation_resume chat7 9 (Ok ()) (selectConversation conv9 chat7))"
  by (simp add: active_listed_def deleteConversation_resume_def selectConversation_def sample_defs)

text \<open>
  Conversation 7 is active and listed; a load to which the server answers with a list
  that no longer has it (it was deleted in another session) leaves 7 active and not
  listed.
\<close>

theorem fetchConversations_drops_active:
  "active_listed chat7 \<and>
   \<not> active_listed (fst (fetchConversations tok (Ok [conv9]) chat7))"
  by (simp add: active_listed_def fetchConversations_def falsy_str_def falsy_id_def sample_defs
      str_def)

section \<open>Operations without a stored token\<close>

text \<open>
  C3 at concrete inputs. With no token in storage (\<open>None\<close>), create, delete (confirmed),
  rename and send still issue their request, with the header \<^verbatim>\<open>Token null\<close>; the server
  here answers not ok. Send has by then appended its optimistic message and cleared the
  draft. Only \<^verbatim>\<open>fetchConversations\<close> and \<^verbatim>\<open>fetchSuggestions\<close> return early
  (\<open>missing_token_skips_refreshes\<close>).
\<close>

theorem missing_token_request_issued:
  "createNewConversation None NotOk chat7 =
     (chat7, [POST_conversations (str ''Token null'') (str ''New Chat'')]) \<and>
   deleteConversation True None NotOk 9 chat7 =
     (chat7, [DELETE_conversation (str ''Token null'') 9]) \<and>
   saveTitle None NotOk editing7 =
     (editing7, [PATCH_conversation (str ''Token null'') 7 (str ''Rome'')]) \<and>
   sendMessage None None 1000 NotOk NotOk NotOk chat7 =
     (chat7\<lparr>messages := [hello, \<lparr>msg_id = 1000, role = User, content = str ''Hello''\<rparr>],
            input := []\<rparr>,
      [POST_message (str ''Token null'') 7 (str ''Hello'')])"
  by (simp add: createNewConversation_def deleteConversation_def saveTitle_def sendMessage_def
      authorization_def contentToSend_def falsy_str_def trim_def is_white_space_def str_def
      sample_defs)

end
